theory Spec2Isabelle
  imports Complex_Main
begin

section \<open>Islands.py: the Earth viewer's projection, colour pipeline and camera\<close>

text \<open>
  The embedding follows \<^verbatim>\<open>src/Islands.py\<close>, class \<^verbatim>\<open>EarthViewerFrame\<close>.
  Python and numpy floats are modelled as \<^typ>\<open>real\<close>: a decimal literal such as
  \<^verbatim>\<open>0.1\<close> is the rational it denotes and arithmetic does not round. Pixel coordinates
  and the Tk button number are integers. Where numpy leaves the finite numbers or raises
  (a reduction over an empty array, a division by zero, \<^verbatim>\<open>log1p\<close> at or below \<open>-1\<close>) the
  model returns an explicit error value.
\<close>

subsection \<open>Errors\<close>

datatype np_error =
    EmptyReduction    \<comment> \<open>\<^verbatim>\<open>ValueError\<close>: \<^verbatim>\<open>min\<close>/\<^verbatim>\<open>max\<close> of a zero-size array\<close>
  | DivideByZero      \<comment> \<open>a quotient whose divisor is zero\<close>
  | Log1pDomain       \<comment> \<open>\<^verbatim>\<open>log1p x\<close> with \<open>x \<le> -1\<close>: numpy yields \<open>-inf\<close> or \<open>nan\<close>\<close>

definition bind_err :: "'e + 'a \<Rightarrow> ('a \<Rightarrow> 'e + 'b) \<Rightarrow> 'e + 'b" where
  "bind_err m f = (case m of Inl e \<Rightarrow> Inl e | Inr x \<Rightarrow> f x)"

text \<open>An elementwise numpy operation that may fail: the first failure is the result.\<close>

fun traverse :: "('a \<Rightarrow> 'e + 'b) \<Rightarrow> 'a list \<Rightarrow> 'e + 'b list" where
  "traverse f [] = Inr []"
| "traverse f (x # xs) =
     bind_err (f x) (\<lambda>y. bind_err (traverse f xs) (\<lambda>ys. Inr (y # ys)))"

subsection \<open>Projection onto the sphere\<close>

text \<open>\<^verbatim>\<open>math.radians\<close>.\<close>

definition radians :: "real \<Rightarrow> real" where
  "radians d = d * pi / 180"

type_synonym point = "real \<times> real \<times> real"

text \<open>
  The body of the row loop of \<^verbatim>\<open>generate_points_from_csv\<close> (lines 192 to 197), for a row
  whose latitude and longitude have been parsed.
\<close>

definition project_point :: "real \<Rightarrow> real \<Rightarrow> real \<Rightarrow> point" where
  "project_point lat lon radius =
     (let theta = radians (90 - lat);
          phi = radians lon;
          x = - radius * sin theta * cos phi;
          y = radius * cos theta;
          z = radius * sin theta * sin phi
      in (x, y, z))"

definition norm3 :: "point \<Rightarrow> real" where
  "norm3 p = (case p of (x, y, z) \<Rightarrow> sqrt (x\<^sup>2 + y\<^sup>2 + z\<^sup>2))"

subsection \<open>Population normalisation\<close>

text \<open>\<^verbatim>\<open>np.log1p\<close> on one element.\<close>

definition log1p :: "real \<Rightarrow> np_error + real" where
  "log1p x = (if - 1 < x then Inr (ln (1 + x)) else Inl Log1pDomain)"

text \<open>\<^verbatim>\<open>ndarray.min\<close> and \<^verbatim>\<open>ndarray.max\<close>: they raise on a zero-size array.\<close>

fun np_min :: "real list \<Rightarrow> np_error + real" where
  "np_min [] = Inl EmptyReduction"
| "np_min (x # xs) = Inr (fold min xs x)"

fun np_max :: "real list \<Rightarrow> np_error + real" where
  "np_max [] = Inl EmptyReduction"
| "np_max (x # xs) = Inr (fold max xs x)"

definition np_divide :: "real \<Rightarrow> real \<Rightarrow> np_error + real" where
  "np_divide a b = (if b = 0 then Inl DivideByZero else Inr (a / b))"

text \<open>\<^verbatim>\<open>np.zeros_like\<close>.\<close>

definition zeros_like :: "real list \<Rightarrow> real list" where
  "zeros_like xs = map (\<lambda>_. 0) xs"

text \<open>
  Lines 207 to 212 of \<^verbatim>\<open>compute_population_colors\<close>: the values that are scaled.
\<close>

definition pop_values :: "bool \<Rightarrow> real list \<Rightarrow> np_error + real list" where
  "pop_values use_logarithmic populations =
     (if use_logarithmic then traverse log1p populations else Inr populations)"

text \<open>
  Lines 214 to 228: the scaling of the (possibly log-transformed) values to \<open>[0, 1]\<close>.
\<close>

definition scale_values :: "real list \<Rightarrow> np_error + real list" where
  "scale_values pvs =
     (let valid_pops = filter (\<lambda>v. v > 0) pvs in
      if length valid_pops = 0 then Inr (zeros_like pvs)
      else
        bind_err (np_min valid_pops) (\<lambda>min_pop.
        bind_err (np_max valid_pops) (\<lambda>max_pop.
          if max_pop > min_pop then
            traverse (\<lambda>v. bind_err (np_divide (v - min_pop) (max_pop - min_pop))
                               (\<lambda>q. Inr (max 0 q))) pvs
          else Inr (zeros_like pvs))))"

text \<open>Lines 207 to 228 together: \<^verbatim>\<open>normalized_pops\<close> from \<^verbatim>\<open>populations\<close>.\<close>

definition normalized_pops :: "bool \<Rightarrow> real list \<Rightarrow> np_error + real list" where
  "normalized_pops use_logarithmic populations =
     bind_err (pop_values use_logarithmic populations) scale_values"

subsection \<open>Colour schemes\<close>

type_synonym rgba = "real \<times> real \<times> real \<times> real"

text \<open>Python's \<^verbatim>\<open>%\<close> on floats, for a positive divisor.\<close>

definition py_mod :: "real \<Rightarrow> real \<Rightarrow> real" where
  "py_mod a b = a - b * of_int \<lfloor>a / b\<rfloor>"

definition hsv_to_rgb :: "real \<Rightarrow> real \<Rightarrow> real \<Rightarrow> real \<times> real \<times> real" where
  "hsv_to_rgb h0 s v =
     (let h = py_mod h0 360;
          c = v * s;
          x = c * (1 - \<bar>py_mod (h / 60) 2 - 1\<bar>);
          m = v - c;
          rgb = (if 0 \<le> h \<and> h < 60 then (c, x, 0)
                 else if 60 \<le> h \<and> h < 120 then (x, c, 0)
                 else if 120 \<le> h \<and> h < 180 then (0, c, x)
                 else if 180 \<le> h \<and> h < 240 then (0, x, c)
                 else if 240 \<le> h \<and> h < 300 then (x, 0, c)
                 else (c, 0, x))
      in case rgb of (r, g, b) \<Rightarrow> (r + m, g + m, b + m))"

text \<open>The loop bodies of \<^verbatim>\<open>generate_color_scheme\<close>, one per scheme.\<close>

definition plasma_rgba :: "real \<Rightarrow> rgba" where
  "plasma_rgba val =
     (if val < 0.25 then
        let t = val * 4 in (0.1 + 0.4 * t, 0.0, 0.3 + 0.4 * t, 0.8)
      else if val < 0.5 then
        let t = (val - 0.25) * 4 in (0.5 + 0.3 * t, 0.1 * t, 0.7 - 0.2 * t, 0.9)
      else if val < 0.75 then
        let t = (val - 0.5) * 4 in (0.8 + 0.2 * t, 0.1 + 0.4 * t, 0.5 - 0.5 * t, 1.0)
      else
        let t = (val - 0.75) * 4 in (1.0, 0.5 + 0.5 * t, 0.0, 1.0))"

definition viridis_rgba :: "real \<Rightarrow> rgba" where
  "viridis_rgba val =
     (if val < 0.25 then
        let t = val * 4 in (0.3 * t, 0.0, 0.4 + 0.2 * t, 0.8)
      else if val < 0.5 then
        let t = (val - 0.25) * 4 in (0.3 - 0.1 * t, 0.2 * t, 0.6 + 0.2 * t, 0.9)
      else if val < 0.75 then
        let t = (val - 0.5) * 4 in (0.2 * t, 0.2 + 0.6 * t, 0.8 - 0.4 * t, 1.0)
      else
        let t = (val - 0.75) * 4 in (0.2 + 0.8 * t, 0.8 + 0.2 * t, 0.4 - 0.4 * t, 1.0))"

definition hot_rgba :: "real \<Rightarrow> rgba" where
  "hot_rgba val =
     (if val < 0.33 then
        let t = val * 3 in (t, 0.0, 0.0, 0.7 + 0.3 * t)
      else if val < 0.66 then
        let t = (val - 0.33) * 3 in (1.0, t, 0.0, 1.0)
      else
        let t = (val - 0.66) * 3 in (1.0, 1.0, t, 1.0))"

definition cool_rgba :: "real \<Rightarrow> rgba" where
  "cool_rgba val = (val, 1.0 - val, 1.0, 0.8)"

definition rainbow_rgba :: "real \<Rightarrow> rgba" where
  "rainbow_rgba val =
     (let hue = val * 300 in
      case hsv_to_rgb hue 1.0 1.0 of (r, g, b) \<Rightarrow> (r, g, b, 0.9))"

definition green_red_rgba :: "real \<Rightarrow> rgba" where
  "green_red_rgba val = (val, 1.0 - val, 0.0, 0.8)"

text \<open>
  \<^verbatim>\<open>generate_color_scheme\<close>: the scheme is the string \<^verbatim>\<open>self.color_scheme\<close>; every
  string that is not one of the five names takes the last branch.
\<close>

definition generate_color_scheme :: "string \<Rightarrow> real list \<Rightarrow> rgba list" where
  "generate_color_scheme color_scheme normalized_values =
     (if color_scheme = ''plasma'' then map plasma_rgba normalized_values
      else if color_scheme = ''viridis'' then map viridis_rgba normalized_values
      else if color_scheme = ''hot'' then map hot_rgba normalized_values
      else if color_scheme = ''cool'' then map cool_rgba normalized_values
      else if color_scheme = ''rainbow'' then map rainbow_rgba normalized_values
      else map green_red_rgba normalized_values)"

text \<open>The six schemes of the selector, by the string that reaches the last branch too.\<close>

definition scheme_names :: "string list" where
  "scheme_names = [''plasma'', ''viridis'', ''hot'', ''cool'', ''rainbow'', ''green-red'']"

definition in_unit :: "real \<Rightarrow> bool" where
  "in_unit c = (0 \<le> c \<and> c \<le> 1)"

definition rgba_in_unit :: "rgba \<Rightarrow> bool" where
  "rgba_in_unit q = (case q of (r, g, b, a) \<Rightarrow> in_unit r \<and> in_unit g \<and> in_unit b \<and> in_unit a)"

definition alpha :: "rgba \<Rightarrow> real" where
  "alpha q = (case q of (r, g, b, a) \<Rightarrow> a)"

subsection \<open>The OpenGL context and standard output\<close>

text \<open>
  The fixed-function modelview state that \<^verbatim>\<open>redraw\<close> drives: a current matrix of four
  rows, the matrix stack, the capability and client-state flags the method toggles, the
  bound arrays, and the draw calls issued since the last clear, each with the modelview
  matrix in force when it was issued.
\<close>

type_synonym vec4 = "real \<times> real \<times> real \<times> real"
type_synonym mat4 = "vec4 \<times> vec4 \<times> vec4 \<times> vec4"

datatype draw_call =
    DrawSphere mat4 real
  | DrawPoints mat4 "point list option" "rgba list option" nat

datatype print_item =
    Computing nat
  | PopulationRange real real
  | LogScaledRange real real

record world =
  modelview :: mat4
  matrix_stack :: "mat4 list"
  texture_2d :: bool
  vertex_array :: bool
  color_array :: bool
  vertex_pointer :: "point list option"
  color_pointer :: "rgba list option"
  frame :: "draw_call list"
  stdout :: "print_item list"

definition identity4 :: mat4 where
  "identity4 = ((1, 0, 0, 0), (0, 1, 0, 0), (0, 0, 1, 0), (0, 0, 0, 1))"

fun dot4 :: "vec4 \<Rightarrow> vec4 \<Rightarrow> real" where
  "dot4 (a1, a2, a3, a4) (b1, b2, b3, b4) = a1 * b1 + a2 * b2 + a3 * b3 + a4 * b4"

fun transpose4 :: "mat4 \<Rightarrow> mat4" where
  "transpose4 ((a1, a2, a3, a4), (b1, b2, b3, b4), (c1, c2, c3, c4), (d1, d2, d3, d4)) =
     ((a1, b1, c1, d1), (a2, b2, c2, d2), (a3, b3, c3, d3), (a4, b4, c4, d4))"

fun row_mul :: "vec4 \<Rightarrow> mat4 \<Rightarrow> vec4" where
  "row_mul r (c1, c2, c3, c4) = (dot4 r c1, dot4 r c2, dot4 r c3, dot4 r c4)"

fun mat_mul :: "mat4 \<Rightarrow> mat4 \<Rightarrow> mat4" where
  "mat_mul (r1, r2, r3, r4) m =
     (row_mul r1 (transpose4 m), row_mul r2 (transpose4 m),
      row_mul r3 (transpose4 m), row_mul r4 (transpose4 m))"

definition translation :: "real \<Rightarrow> real \<Rightarrow> real \<Rightarrow> mat4" where
  "translation x y z = ((1, 0, 0, x), (0, 1, 0, y), (0, 0, 1, z), (0, 0, 0, 1))"

text \<open>
  The matrix of \<^verbatim>\<open>glRotatef\<close>: \<open>angle\<close> degrees about the axis \<open>(x, y, z)\<close>, which GL
  normalises. \<^verbatim>\<open>redraw\<close> only passes the three unit axes.
\<close>

definition rotation :: "real \<Rightarrow> real \<Rightarrow> real \<Rightarrow> real \<Rightarrow> mat4" where
  "rotation angle x0 y0 z0 =
     (let n = sqrt (x0\<^sup>2 + y0\<^sup>2 + z0\<^sup>2);
          x = x0 / n; y = y0 / n; z = z0 / n;
          c = cos (radians angle); s = sin (radians angle)
      in ((x * x * (1 - c) + c, x * y * (1 - c) - z * s, x * z * (1 - c) + y * s, 0),
          (y * x * (1 - c) + z * s, y * y * (1 - c) + c, y * z * (1 - c) - x * s, 0),
          (x * z * (1 - c) - y * s, y * z * (1 - c) + x * s, z * z * (1 - c) + c, 0),
          (0, 0, 0, 1)))"

definition glLoadIdentity :: "world \<Rightarrow> world" where
  "glLoadIdentity w = w\<lparr> modelview := identity4 \<rparr>"

definition glClear :: "world \<Rightarrow> world" where
  "glClear w = w\<lparr> frame := [] \<rparr>"

definition glTranslatef :: "real \<Rightarrow> real \<Rightarrow> real \<Rightarrow> world \<Rightarrow> world" where
  "glTranslatef x y z w = w\<lparr> modelview := mat_mul (modelview w) (translation x y z) \<rparr>"

definition glRotatef :: "real \<Rightarrow> real \<Rightarrow> real \<Rightarrow> real \<Rightarrow> world \<Rightarrow> world" where
  "glRotatef angle x y z w =
     (if x = 0 \<and> y = 0 \<and> z = 0 then w
      else w\<lparr> modelview := mat_mul (modelview w) (rotation angle x y z) \<rparr>)"

definition glPushMatrix :: "world \<Rightarrow> world" where
  "glPushMatrix w = w\<lparr> matrix_stack := modelview w # matrix_stack w \<rparr>"

definition glPopMatrix :: "world \<Rightarrow> world" where
  "glPopMatrix w =
     (case matrix_stack w of
        [] \<Rightarrow> w
      | m # ms \<Rightarrow> w\<lparr> modelview := m, matrix_stack := ms \<rparr>)"

definition glDrawArrays_points :: "nat \<Rightarrow> world \<Rightarrow> world" where
  "glDrawArrays_points n w =
     w\<lparr> frame := frame w @ [DrawPoints (modelview w) (vertex_pointer w) (color_pointer w) n] \<rparr>"

text \<open>\<^verbatim>\<open>draw_textured_sphere\<close>: binds the texture and issues \<^verbatim>\<open>gluSphere\<close>.\<close>

definition draw_textured_sphere :: "real \<Rightarrow> world \<Rightarrow> world" where
  "draw_textured_sphere radius w = w\<lparr> frame := frame w @ [DrawSphere (modelview w) radius] \<rparr>"

subsection \<open>The viewer object\<close>

text \<open>
  The fields of \<^verbatim>\<open>EarthViewerFrame\<close>. \<^verbatim>\<open>populations\<close> is \<^term>\<open>None\<close> when the attribute
  was never set (no points were loaded) or holds \<^verbatim>\<open>None\<close>. \<^verbatim>\<open>last_mouse_pos\<close> is the
  dictionary \<^verbatim>\<open>{'x': .., 'y': ..}\<close>, kept as two fields.
\<close>

record viewer =
  points_vbo :: "point list option"
  colors_vbo :: "rgba list option"
  point_count :: nat
  rotation_angle_x :: real
  rotation_angle_y :: real
  sphere_rotation_x :: real
  sphere_rotation_y :: real
  sphere_rotation_z :: real
  last_mouse_pos_x :: int
  last_mouse_pos_y :: int
  is_dragging :: bool
  zoom :: real
  color_scheme :: string
  use_logarithmic :: bool
  alpha_blending :: bool
  populations :: "real list option"

text \<open>The state \<^verbatim>\<open>__init__\<close> sets up before it tries to load the points.\<close>

definition init_viewer :: viewer where
  "init_viewer =
     \<lparr> points_vbo = None, colors_vbo = None, point_count = 0,
       rotation_angle_x = 0, rotation_angle_y = 0,
       sphere_rotation_x = 90, sphere_rotation_y = 0, sphere_rotation_z = 270,
       last_mouse_pos_x = 0, last_mouse_pos_y = 0,
       is_dragging = False, zoom = - 8,
       color_scheme = ''plasma'', use_logarithmic = True, alpha_blending = True,
       populations = None \<rparr>"

definition compute_population_colors ::
    "viewer \<Rightarrow> real list \<Rightarrow> world \<Rightarrow> np_error + (rgba list \<times> world)" where
  "compute_population_colors s pops w =
     (let w = w\<lparr> stdout := stdout w @ [Computing (length pops)] \<rparr> in
      bind_err (pop_values (use_logarithmic s) pops) (\<lambda>pvs.
      bind_err (scale_values pvs) (\<lambda>normalized.
      let colors = generate_color_scheme (color_scheme s) normalized in
      bind_err (np_min pops) (\<lambda>lo.
      bind_err (np_max pops) (\<lambda>hi.
      let w = w\<lparr> stdout := stdout w @ [PopulationRange lo hi] \<rparr> in
      if use_logarithmic s then
        bind_err (np_min pvs) (\<lambda>llo.
        bind_err (np_max pvs) (\<lambda>lhi.
          Inr (colors, w\<lparr> stdout := stdout w @ [LogScaledRange llo lhi] \<rparr>)))
      else Inr (colors, w))))))"

definition redraw :: "viewer \<Rightarrow> world \<Rightarrow> world" where
  "redraw s w =
     (let w = glLoadIdentity w;
          w = glClear w;
          w = glTranslatef 0.0 0.0 (zoom s) w;
          w = glRotatef (rotation_angle_x s) 1 0 0 w;
          w = glRotatef (rotation_angle_y s) 0 1 0 w;
          w = glPushMatrix w;
          w = glRotatef (sphere_rotation_x s) 1 0 0 w;
          w = glRotatef (sphere_rotation_y s) 0 1 0 w;
          w = glRotatef (sphere_rotation_z s) 0 0 1 w;
          w = draw_textured_sphere 2.5 w;
          w = glPopMatrix w
      in if points_vbo s \<noteq> None \<and> point_count s > 0 then
           let w = w\<lparr> texture_2d := False \<rparr>;
               w = w\<lparr> vertex_array := True \<rparr>;
               w = w\<lparr> color_array := True \<rparr>;
               w = w\<lparr> vertex_pointer := points_vbo s \<rparr>;
               w = w\<lparr> color_pointer := colors_vbo s \<rparr>;
               w = glDrawArrays_points (point_count s) w;
               w = w\<lparr> vertex_array := False \<rparr>;
               w = w\<lparr> color_array := False \<rparr>
           in w\<lparr> texture_2d := True \<rparr>
         else w)"

text \<open>
  \<^verbatim>\<open>update_heatmap_settings\<close>. When the colour computation raises, the exception leaves
  the method with the fields assigned so far: the error carries that object.
\<close>

definition update_heatmap_settings ::
    "viewer \<Rightarrow> string option \<Rightarrow> bool option \<Rightarrow> world
       \<Rightarrow> (np_error \<times> viewer) + (viewer \<times> world)" where
  "update_heatmap_settings s0 scheme logarithmic w =
     (let s = (case scheme of None \<Rightarrow> s0 | Some sc \<Rightarrow> s0\<lparr> color_scheme := sc \<rparr>);
          s = (case logarithmic of None \<Rightarrow> s | Some lg \<Rightarrow> s\<lparr> use_logarithmic := lg \<rparr>)
      in case populations s of
           None \<Rightarrow> Inr (s, w)
         | Some pops \<Rightarrow>
             (case compute_population_colors s pops w of
                Inl e \<Rightarrow> Inl (e, s)
              | Inr (colors, w) \<Rightarrow>
                  let s = s\<lparr> colors_vbo := Some colors \<rparr> in Inr (s, redraw s w)))"

text \<open>The object a call leaves behind, whether it returned or raised.\<close>

definition viewer_after :: "(np_error \<times> viewer) + (viewer \<times> world) \<Rightarrow> viewer" where
  "viewer_after r = (case r of Inl (e, s) \<Rightarrow> s | Inr (s, w) \<Rightarrow> s)"

subsection \<open>Mouse handlers\<close>

text \<open>
  A Tk event as the handlers see it: the pointer position, the button number
  (\<^verbatim>\<open>event.num\<close>, which Tk sets to the string \<^verbatim>\<open>'??'\<close> when the event has no button:
  \<^term>\<open>None\<close> here) and the wheel delta.
\<close>

record event =
  ev_x :: int
  ev_y :: int
  ev_num :: "int option"
  ev_delta :: int

definition on_mouse_press :: "viewer \<Rightarrow> event \<Rightarrow> viewer" where
  "on_mouse_press s e =
     s\<lparr> is_dragging := True, last_mouse_pos_x := ev_x e, last_mouse_pos_y := ev_y e \<rparr>"

definition on_mouse_release :: "viewer \<Rightarrow> event \<Rightarrow> viewer" where
  "on_mouse_release s e = s\<lparr> is_dragging := False \<rparr>"

definition on_mouse_drag :: "viewer \<Rightarrow> event \<Rightarrow> viewer" where
  "on_mouse_drag s e =
     (if is_dragging s then
        let dx = ev_x e - last_mouse_pos_x s;
            dy = ev_y e - last_mouse_pos_y s
        in s\<lparr> rotation_angle_y := rotation_angle_y s + real_of_int dx * 0.5,
              rotation_angle_x := rotation_angle_x s + real_of_int dy * 0.5,
              last_mouse_pos_x := ev_x e,
              last_mouse_pos_y := ev_y e \<rparr>
      else s)"

definition on_mouse_wheel :: "viewer \<Rightarrow> event \<Rightarrow> viewer" where
  "on_mouse_wheel s e =
     (let zoom_increment = 0.1;
          z = (if ev_num e = Some 5 \<or> ev_delta e = - 120 then zoom s - zoom_increment
               else if ev_num e = Some 4 \<or> ev_delta e = 120 then zoom s + zoom_increment
               else zoom s)
      in s\<lparr> zoom := max (min z (- 1.0)) (- 50.0) \<rparr>)"

text \<open>A run of wheel events, and the zoom after each event of the run.\<close>

fun wheel_zooms :: "viewer \<Rightarrow> event list \<Rightarrow> real list" where
  "wheel_zooms s [] = []"
| "wheel_zooms s (e # es) = zoom (on_mouse_wheel s e) # wheel_zooms (on_mouse_wheel s e) es"

text \<open>The transforms under which a frame's sphere and point cloud were drawn.\<close>

fun sphere_transforms :: "draw_call list \<Rightarrow> mat4 list" where
  "sphere_transforms [] = []"
| "sphere_transforms (DrawSphere m r # ds) = m # sphere_transforms ds"
| "sphere_transforms (DrawPoints m ps cs n # ds) = sphere_transforms ds"

fun points_transforms :: "draw_call list \<Rightarrow> mat4 list" where
  "points_transforms [] = []"
| "points_transforms (DrawSphere m r # ds) = points_transforms ds"
| "points_transforms (DrawPoints m ps cs n # ds) = m # points_transforms ds"

text \<open>
  The transform both draws of a frame start from: the zoom translation, then the cloud
  rotation about X, then about Y.
\<close>

definition shared_prefix :: "viewer \<Rightarrow> mat4" where
  "shared_prefix s =
     mat_mul (mat_mul (mat_mul identity4 (translation 0 0 (zoom s)))
                      (rotation (rotation_angle_x s) 1 0 0))
             (rotation (rotation_angle_y s) 0 1 0)"

text \<open>A context after \<^verbatim>\<open>initgl\<close>, before the first frame.\<close>

definition init_world :: world where
  "init_world =
     \<lparr> modelview = identity4, matrix_stack = [], texture_2d = True,
       vertex_array = False, color_array = False,
       vertex_pointer = None, color_pointer = None, frame = [], stdout = [] \<rparr>"

section \<open>Properties\<close>

subsection \<open>Error plumbing\<close>

lemma bind_err_Inr: "bind_err (Inr x) f = f x"
  by (simp add: bind_err_def)

lemma bind_err_Inl: "bind_err (Inl e) f = Inl e"
  by (simp add: bind_err_def)

subsection \<open>Projection\<close>

lemma sphere_sum_squares:
  fixes r st ct sp cp :: real
  assumes "st\<^sup>2 + ct\<^sup>2 = 1" and "sp\<^sup>2 + cp\<^sup>2 = 1"
  shows "(- r * st * cp)\<^sup>2 + (r * ct)\<^sup>2 + (r * st * sp)\<^sup>2 = r\<^sup>2"
proof -
  have "(- r * st * cp)\<^sup>2 + (r * ct)\<^sup>2 + (r * st * sp)\<^sup>2
        = r\<^sup>2 * (st\<^sup>2 * (sp\<^sup>2 + cp\<^sup>2) + ct\<^sup>2)"
    by (simp add: power2_eq_square algebra_simps)
  also have "\<dots> = r\<^sup>2 * (st\<^sup>2 + ct\<^sup>2)"
    by (simp only: assms(2) mult_1_right)
  also have "\<dots> = r\<^sup>2"
    by (simp only: assms(1) mult_1_right)
  finally show ?thesis .
qed

lemma norm3_project: "norm3 (project_point lat lon r) = \<bar>r\<bar>"
proof -
  let ?t = "radians (90 - lat)" and ?p = "radians lon"
  have "(- r * sin ?t * cos ?p)\<^sup>2 + (r * cos ?t)\<^sup>2 + (r * sin ?t * sin ?p)\<^sup>2 = r\<^sup>2"
    by (rule sphere_sum_squares) simp_all
  then have "norm3 (project_point lat lon r) = sqrt (r\<^sup>2)"
    unfolding norm3_def project_point_def Let_def prod.case by (rule arg_cong)
  then show ?thesis by simp
qed

lemma project_north: "project_point 90 lon r = (0, r, 0)"
  by (simp add: project_point_def radians_def)

lemma project_south: "project_point (- 90) lon r = (0, - r, 0)"
  by (simp add: project_point_def radians_def)

text \<open>
  C1. For every latitude, longitude and radius \<open>r\<close> the projected point is
  \<open>(- r sin \<theta> cos \<phi>, r cos \<theta>, r sin \<theta> sin \<phi>)\<close> with \<open>\<theta> = radians (90 - lat)\<close> and
  \<open>\<phi> = radians lon\<close>; latitude 90 gives \<open>(0, r, 0)\<close>, latitude -90 gives \<open>(0, - r, 0)\<close>;
  and the Euclidean norm of the point is \<open>\<bar>r\<bar>\<close>, which is \<open>r\<close> for a radius \<open>r \<ge> 0\<close>.
  Over the reals the norm is exact, so it holds within every tolerance.
\<close>

theorem project_point_on_sphere:
  "project_point lat lon r =
     (- r * sin (radians (90 - lat)) * cos (radians lon),
      r * cos (radians (90 - lat)),
      r * sin (radians (90 - lat)) * sin (radians lon))
   \<and> project_point 90 lon r = (0, r, 0)
   \<and> project_point (- 90) lon r = (0, - r, 0)
   \<and> norm3 (project_point lat lon r) = \<bar>r\<bar>
   \<and> (0 \<le> r \<longrightarrow> norm3 (project_point lat lon r) = r)"
proof -
  have "project_point lat lon r =
     (- r * sin (radians (90 - lat)) * cos (radians lon),
      r * cos (radians (90 - lat)),
      r * sin (radians (90 - lat)) * sin (radians lon))"
    by (simp add: project_point_def Let_def)
  moreover have "0 \<le> r \<longrightarrow> norm3 (project_point lat lon r) = r"
    by (simp add: norm3_project)
  ultimately show ?thesis
    using project_north[of lon r] project_south[of lon r] norm3_project[of lat lon r]
    by blast
qed

theorem project_point_on_sphere_witness:
  "norm3 (project_point 45 30 (5 / 2)) = 5 / 2
   \<and> project_point 90 30 (5 / 2) = (0, 5 / 2, 0)
   \<and> project_point (- 90) 30 (5 / 2) = (0, - (5 / 2), 0)"
proof -
  have h: "(0::real) \<le> 5 / 2" by simp
  from project_point_on_sphere[where lat = 45 and lon = 30 and r = "5 / 2"] h
  show ?thesis by blast
qed

subsection \<open>Normalisation\<close>

lemma traverse_log1p:
  "(\<forall>p\<in>set pops. - 1 < p) \<Longrightarrow> traverse log1p pops = Inr (map (\<lambda>v. ln (1 + v)) pops)"
  by (induction pops) (simp_all add: log1p_def bind_err_def)

lemma traverse_log1p_outcome:
  "(\<exists>out. traverse log1p pops = Inr out) \<or> traverse log1p pops = Inl Log1pDomain"
  by (induction pops) (auto simp: log1p_def bind_err_def)

lemma np_min_Min: "xs \<noteq> [] \<Longrightarrow> np_min xs = Inr (Min (set xs))"
proof (cases xs)
  case Nil
  assume "xs \<noteq> []"
  with Nil show ?thesis by simp
next
  case (Cons x ys)
  then show ?thesis using Min.set_eq_fold[of x ys] by simp
qed

lemma np_max_Max: "xs \<noteq> [] \<Longrightarrow> np_max xs = Inr (Max (set xs))"
proof (cases xs)
  case Nil
  assume "xs \<noteq> []"
  with Nil show ?thesis by simp
next
  case (Cons x ys)
  then show ?thesis using Max.set_eq_fold[of x ys] by simp
qed

lemma traverse_scale:
  "d \<noteq> 0 \<Longrightarrow>
   traverse (\<lambda>v. bind_err (np_divide (v - lo) d) (\<lambda>q. Inr (max 0 q))) xs
     = Inr (map (\<lambda>v. max 0 ((v - lo) / d)) xs)"
  by (induction xs) (simp_all add: np_divide_def bind_err_def)

lemma scale_values_eq:
  "scale_values pvs =
     Inr (if filter (\<lambda>v. 0 < v) pvs = [] then map (\<lambda>_. 0) pvs
          else if Min (set (filter (\<lambda>v. 0 < v) pvs)) < Max (set (filter (\<lambda>v. 0 < v) pvs))
          then map (\<lambda>v. max 0 ((v - Min (set (filter (\<lambda>v. 0 < v) pvs)))
                         / (Max (set (filter (\<lambda>v. 0 < v) pvs))
                            - Min (set (filter (\<lambda>v. 0 < v) pvs))))) pvs
          else map (\<lambda>_. 0) pvs)"
proof (cases "filter (\<lambda>v. 0 < v) pvs = []")
  case True
  then show ?thesis by (simp add: scale_values_def zeros_like_def)
next
  case False
  then show ?thesis
    by (simp add: scale_values_def Let_def zeros_like_def np_min_Min np_max_Max bind_err_Inr
        traverse_scale del: set_filter)
qed

lemma scaled_in_unit:
  fixes t lo hi :: real
  assumes "lo < hi" "t \<le> hi"
  shows "0 \<le> max 0 ((t - lo) / (hi - lo))" "max 0 ((t - lo) / (hi - lo)) \<le> 1"
proof -
  show "0 \<le> max 0 ((t - lo) / (hi - lo))" by simp
  have "(t - lo) / (hi - lo) \<le> 1" using assms by (simp add: divide_le_eq)
  then show "max 0 ((t - lo) / (hi - lo)) \<le> 1" by simp
qed

lemma le_Max_positive:
  fixes pvs :: "real list"
  assumes "filter (\<lambda>v. 0 < v) pvs \<noteq> []" "t \<in> set pvs"
  shows "t \<le> Max (set (filter (\<lambda>v. 0 < v) pvs))"
proof (cases "0 < t")
  case True
  then have "t \<in> set (filter (\<lambda>v. 0 < v) pvs)" using assms(2) by simp
  then show ?thesis by (intro Max_ge) simp_all
next
  case False
  obtain u where u: "u \<in> set (filter (\<lambda>v. 0 < v) pvs)"
    using assms(1) by (cases "filter (\<lambda>v. 0 < v) pvs") auto
  then have "u \<le> Max (set (filter (\<lambda>v. 0 < v) pvs))" by (intro Max_ge) simp_all
  moreover have "0 < u" using u by simp
  ultimately show ?thesis using False by linarith
qed

lemma scale_values_unit:
  assumes "scale_values pvs = Inr out" "y \<in> set out"
  shows "0 \<le> y \<and> y \<le> 1"
proof -
  let ?pos = "filter (\<lambda>v. 0 < v) pvs"
  show ?thesis
  proof (cases "?pos \<noteq> [] \<and> Min (set ?pos) < Max (set ?pos)")
    case True
    then have "out = map (\<lambda>v. max 0 ((v - Min (set ?pos)) / (Max (set ?pos) - Min (set ?pos)))) pvs"
      using assms(1) by (simp add: scale_values_eq)
    then obtain t where t: "t \<in> set pvs"
        and y: "y = max 0 ((t - Min (set ?pos)) / (Max (set ?pos) - Min (set ?pos)))"
      using assms(2) by auto
    have "t \<le> Max (set ?pos)" using True t by (intro le_Max_positive) simp_all
    then show ?thesis using scaled_in_unit[of "Min (set ?pos)" "Max (set ?pos)" t] True y by simp
  next
    case False
    then have "out = map (\<lambda>_. 0) pvs"
      using assms(1) by (auto simp: scale_values_eq split: if_splits)
    then show ?thesis using assms(2) by auto
  qed
qed

lemma pop_values_ok:
  "use_log \<longrightarrow> (\<forall>p\<in>set pops. - 1 < p) \<Longrightarrow>
   pop_values use_log pops = Inr (map (\<lambda>v. if use_log then ln (1 + v) else v) pops)"
  by (cases use_log) (simp_all add: pop_values_def traverse_log1p)

lemma Min_le_Max_list:
  fixes xs :: "real list"
  assumes "xs \<noteq> []"
  shows "Min (set xs) \<le> Max (set xs)"
proof -
  obtain x where "x \<in> set xs" using assms by (cases xs) auto
  then have "Min (set xs) \<le> x" "x \<le> Max (set xs)" by simp_all
  then show ?thesis by linarith
qed

text \<open>
  C2. For every sequence of population values (in logarithmic mode: values above \<open>-1\<close>,
  where \<open>ln (1 + v)\<close> is a real number) the normalisation returns one output per input,
  each in \<open>[0, 1]\<close>. With \<open>ts\<close> the transformed values and \<open>pos\<close> the strictly positive
  ones: if \<open>pos\<close> is empty every output is 0; if the maximum of \<open>pos\<close> equals its minimum
  every output is 0; otherwise \<open>t\<close> maps to \<open>max 0 ((t - lo) / (hi - lo))\<close>, so that every
  value at or below the minimum maps to 0. If all inputs are 0, all outputs are 0.
\<close>

theorem normalized_pops_unit_interval:
  assumes dom: "use_log \<longrightarrow> (\<forall>p\<in>set pops. - 1 < p)"
  shows "\<exists>out. normalized_pops use_log pops = Inr out \<and> length out = length pops
           \<and> (\<forall>y\<in>set out. 0 \<le> y \<and> y \<le> 1)
           \<and> (let ts = map (\<lambda>v. if use_log then ln (1 + v) else v) pops;
                   pos = filter (\<lambda>t. 0 < t) ts;
                   lo = Min (set pos); hi = Max (set pos)
               in (pos = [] \<longrightarrow> out = map (\<lambda>_. 0) pops)
                \<and> (pos \<noteq> [] \<and> hi = lo \<longrightarrow> out = map (\<lambda>_. 0) pops)
                \<and> (pos \<noteq> [] \<and> hi \<noteq> lo \<longrightarrow>
                     out = map (\<lambda>t. max 0 ((t - lo) / (hi - lo))) ts
                     \<and> (\<forall>i<length pops. ts ! i \<le> lo \<longrightarrow> out ! i = 0)))
           \<and> ((\<forall>p\<in>set pops. p = 0) \<longrightarrow> (\<forall>y\<in>set out. y = 0))"
proof -
  define ts where "ts = map (\<lambda>v. if use_log then ln (1 + v) else v) pops"
  define pos where "pos = filter (\<lambda>t. 0 < t) ts"
  define lo where "lo = Min (set pos)"
  define hi where "hi = Max (set pos)"
  define out where "out = (if pos = [] then map (\<lambda>_. 0) ts
                           else if lo < hi then map (\<lambda>v. max 0 ((v - lo) / (hi - lo))) ts
                           else map (\<lambda>_. 0) ts)"
  have pv: "pop_values use_log pops = Inr ts"
    unfolding ts_def using dom by (rule pop_values_ok)
  have sv: "scale_values ts = Inr out"
    unfolding out_def lo_def hi_def pos_def by (rule scale_values_eq)
  have res: "normalized_pops use_log pops = Inr out"
    by (simp add: normalized_pops_def pv bind_err_Inr sv)
  have len: "length out = length pops"
    by (simp add: out_def ts_def)
  have unit: "\<forall>y\<in>set out. 0 \<le> y \<and> y \<le> 1"
    using scale_values_unit[OF sv] by blast
  have lohi: "lo \<le> hi" if "pos \<noteq> []"
    unfolding lo_def hi_def using that by (rule Min_le_Max_list)
  have c1: "pos = [] \<longrightarrow> out = map (\<lambda>_. 0) pops"
    by (simp add: out_def ts_def)
  have c2: "pos \<noteq> [] \<and> hi = lo \<longrightarrow> out = map (\<lambda>_. 0) pops"
    by (simp add: out_def ts_def)
  have c3: "pos \<noteq> [] \<and> hi \<noteq> lo \<longrightarrow> out = map (\<lambda>t. max 0 ((t - lo) / (hi - lo))) ts"
    using lohi by (auto simp: out_def)
  have c4: "pos \<noteq> [] \<and> hi \<noteq> lo \<longrightarrow> (\<forall>i<length pops. ts ! i \<le> lo \<longrightarrow> out ! i = 0)"
  proof (intro impI allI)
    fix i assume a: "pos \<noteq> [] \<and> hi \<noteq> lo" and i: "i < length pops" and le: "ts ! i \<le> lo"
    have "lo < hi" using a lohi by fastforce
    then have "(ts ! i - lo) / (hi - lo) \<le> 0"
      using le by (simp add: divide_le_0_iff)
    moreover have "out ! i = max 0 ((ts ! i - lo) / (hi - lo))"
      using a c3 i by (simp add: ts_def)
    ultimately show "out ! i = 0" by simp
  qed
  have zero: "(\<forall>p\<in>set pops. p = 0) \<longrightarrow> (\<forall>y\<in>set out. y = 0)"
  proof
    assume z: "\<forall>p\<in>set pops. p = 0"
    then have "\<forall>t\<in>set ts. t = 0" by (auto simp: ts_def)
    then have "pos = []" by (auto simp: pos_def filter_empty_conv)
    then show "\<forall>y\<in>set out. y = 0" by (simp add: out_def)
  qed
  show ?thesis
    unfolding Let_def
    using res len unit c1 c2 c3 c4 zero
    unfolding ts_def[symmetric] pos_def[symmetric] lo_def[symmetric] hi_def[symmetric]
    by (intro exI[of _ out]) blast
qed

theorem normalized_pops_unit_interval_witness:
  "\<exists>out. normalized_pops True [0, 1, 3] = Inr out \<and> length out = length [0, 1, 3 :: real]
     \<and> (\<forall>y\<in>set out. 0 \<le> y \<and> y \<le> 1)"
proof -
  have h: "True \<longrightarrow> (\<forall>p\<in>set [0, 1, 3 :: real]. - 1 < p)" by simp
  from normalized_pops_unit_interval[OF h] show ?thesis by blast
qed

text \<open>
  C5. The normalisation never divides by zero and never reduces an empty array, for any
  input: the scaling of lines 214 to 228 returns a value for every sequence of transformed
  values, because both degenerate branches (no positive value; maximum equal to minimum)
  are decided before the quotient is formed. The whole normalisation returns a value for
  every input without the logarithm, for every all-zero input, and with the logarithm for
  every input above \<open>-1\<close>; at or below \<open>-1\<close> numpy's \<^verbatim>\<open>log1p\<close> itself leaves the reals
  (without raising), which is the only other outcome.
\<close>

theorem normalization_never_divides_by_zero:
  "(\<exists>out. scale_values pvs = Inr out)
   \<and> normalized_pops use_log pops \<noteq> Inl DivideByZero
   \<and> normalized_pops use_log pops \<noteq> Inl EmptyReduction
   \<and> (\<exists>out. normalized_pops False pops = Inr out)
   \<and> (\<exists>out. normalized_pops use_log (replicate n 0) = Inr out)
   \<and> ((\<forall>p\<in>set pops. - 1 < p) \<longrightarrow> (\<exists>out. normalized_pops True pops = Inr out))"
proof -
  have sv: "\<exists>out. scale_values xs = Inr out" for xs
    using scale_values_eq[of xs] by blast
  have nolog: "\<exists>out. normalized_pops False xs = Inr out" for xs
    using sv[of xs] by (simp add: normalized_pops_def pop_values_def bind_err_Inr)
  have logok: "\<exists>out. normalized_pops True xs = Inr out" if "\<forall>p\<in>set xs. - 1 < p" for xs
    using that sv[of "map (\<lambda>v. ln (1 + v)) xs"]
    by (simp add: normalized_pops_def pop_values_def traverse_log1p bind_err_Inr)
  have outcome: "(\<exists>out. normalized_pops use_log pops = Inr out)
                 \<or> normalized_pops use_log pops = Inl Log1pDomain"
  proof (cases use_log)
    case False
    then show ?thesis using nolog[of pops] by simp
  next
    case True
    from traverse_log1p_outcome[of pops] show ?thesis
    proof
      assume "\<exists>ts. traverse log1p pops = Inr ts"
      then obtain ts where "traverse log1p pops = Inr ts" by blast
      then show ?thesis using True sv[of ts]
        by (simp add: normalized_pops_def pop_values_def bind_err_Inr)
    next
      assume "traverse log1p pops = Inl Log1pDomain"
      then show ?thesis using True
        by (simp add: normalized_pops_def pop_values_def bind_err_Inl)
    qed
  qed
  have no_div: "normalized_pops use_log pops \<noteq> Inl DivideByZero"
    using outcome by auto
  have no_empty: "normalized_pops use_log pops \<noteq> Inl EmptyReduction"
    using outcome by auto
  have zeros: "\<exists>out. normalized_pops use_log (replicate n 0) = Inr out"
  proof (cases use_log)
    case False
    then show ?thesis using nolog[of "replicate n 0"] by simp
  next
    case True
    then show ?thesis using logok[of "replicate n 0"] by simp
  qed
  show ?thesis
    using sv[of pvs] no_div no_empty nolog[of pops] zeros logok[of pops] by blast
qed

theorem normalization_never_divides_by_zero_witness:
  "(\<exists>out. normalized_pops True [0, 0, 0] = Inr out)
   \<and> (\<exists>out. normalized_pops True [7, 7] = Inr out)
   \<and> normalized_pops True [7, 7] \<noteq> Inl DivideByZero"
  using normalization_never_divides_by_zero[where pops = "[0, 0, 0]" and use_log = True]
    normalization_never_divides_by_zero[where pops = "[7, 7]" and use_log = True]
  by simp

subsection \<open>Colour schemes\<close>

lemma plasma_in_unit:
  assumes "0 \<le> v" "v \<le> 1"
  shows "rgba_in_unit (plasma_rgba v)"
proof -
  consider "v < 0.25" | "0.25 \<le> v" "v < 0.5" | "0.5 \<le> v" "v < 0.75" | "0.75 \<le> v"
    by linarith
  then show ?thesis
  proof cases
    case 1
    with assms show ?thesis
      by (simp add: plasma_rgba_def rgba_in_unit_def in_unit_def Let_def; argo)
  next
    case 2
    with assms show ?thesis
      by (simp add: plasma_rgba_def rgba_in_unit_def in_unit_def Let_def; argo)
  next
    case 3
    with assms show ?thesis
      by (simp add: plasma_rgba_def rgba_in_unit_def in_unit_def Let_def; argo)
  next
    case 4
    with assms show ?thesis
      by (simp add: plasma_rgba_def rgba_in_unit_def in_unit_def Let_def; argo)
  qed
qed

lemma viridis_in_unit:
  assumes "0 \<le> v" "v \<le> 1"
  shows "rgba_in_unit (viridis_rgba v)"
proof -
  consider "v < 0.25" | "0.25 \<le> v" "v < 0.5" | "0.5 \<le> v" "v < 0.75" | "0.75 \<le> v"
    by linarith
  then show ?thesis
  proof cases
    case 1
    with assms show ?thesis
      by (simp add: viridis_rgba_def rgba_in_unit_def in_unit_def Let_def; argo)
  next
    case 2
    with assms show ?thesis
      by (simp add: viridis_rgba_def rgba_in_unit_def in_unit_def Let_def; argo)
  next
    case 3
    with assms show ?thesis
      by (simp add: viridis_rgba_def rgba_in_unit_def in_unit_def Let_def; argo)
  next
    case 4
    with assms show ?thesis
      by (simp add: viridis_rgba_def rgba_in_unit_def in_unit_def Let_def; argo)
  qed
qed

lemma cool_in_unit: "0 \<le> v \<Longrightarrow> v \<le> 1 \<Longrightarrow> rgba_in_unit (cool_rgba v)"
  by (simp add: cool_rgba_def rgba_in_unit_def in_unit_def)

lemma green_red_in_unit: "0 \<le> v \<Longrightarrow> v \<le> 1 \<Longrightarrow> rgba_in_unit (green_red_rgba v)"
  by (simp add: green_red_rgba_def rgba_in_unit_def in_unit_def)

lemma py_mod_range: "0 < b \<Longrightarrow> 0 \<le> py_mod a b \<and> py_mod a b < b"
proof -
  assume b: "0 < b"
  define k where "k = real_of_int \<lfloor>a / b\<rfloor>"
  have "k \<le> a / b" unfolding k_def by linarith
  then have lower: "k * b \<le> a"
    using b by (simp add: pos_le_divide_eq)
  have "a / b < k + 1" unfolding k_def by linarith
  then have upper: "a < (k + 1) * b"
    using b by (simp add: pos_divide_less_eq)
  have "py_mod a b = a - k * b" by (simp add: py_mod_def k_def mult.commute)
  with lower upper show ?thesis by (simp add: algebra_simps)
qed

lemma hsv_unit:
  "in_unit r \<and> in_unit g \<and> in_unit b" if "hsv_to_rgb h 1 1 = (r, g, b)"
proof -
  let ?x = "1 - \<bar>py_mod (py_mod h 360 / 60) 2 - 1\<bar>"
  have "0 \<le> py_mod (py_mod h 360 / 60) 2 \<and> py_mod (py_mod h 360 / 60) 2 < 2"
    by (rule py_mod_range) simp
  then have x: "0 \<le> ?x" "?x \<le> 1" by (simp_all add: abs_le_iff)
  show ?thesis
    using that x by (auto simp: hsv_to_rgb_def Let_def in_unit_def split: if_splits)
qed

lemma rainbow_in_unit: "rgba_in_unit (rainbow_rgba v)"
proof -
  obtain r g b where e: "hsv_to_rgb (v * 300) 1 1 = (r, g, b)"
    by (metis prod_cases3)
  from hsv_unit[OF e] show ?thesis
    by (simp add: rainbow_rgba_def Let_def e rgba_in_unit_def in_unit_def)
qed

text \<open>
  Of the six schemes only \<^verbatim>\<open>hot\<close> leaves the unit range on \<open>[0, 1]\<close>, and only above
  \<open>149 / 150\<close>, where its blue component \<open>3 (v - 0.66)\<close> passes 1.
\<close>

lemma hot_in_unit_iff:
  "0 \<le> v \<Longrightarrow> v \<le> 1 \<Longrightarrow> rgba_in_unit (hot_rgba v) \<longleftrightarrow> v \<le> 149 / 150"
  by (auto simp: hot_rgba_def rgba_in_unit_def in_unit_def Let_def)

lemma other_schemes_in_unit:
  assumes "\<forall>v\<in>set vs. 0 \<le> v \<and> v \<le> 1" "scheme \<noteq> ''hot''"
  shows "\<forall>q\<in>set (generate_color_scheme scheme vs). rgba_in_unit q"
  using assms
  by (auto simp: generate_color_scheme_def plasma_in_unit viridis_in_unit cool_in_unit
      rainbow_in_unit green_red_in_unit)

text \<open>
  C3. The claim is that every scheme returns four components in \<open>[0, 1]\<close> for every
  \<open>v\<close> in \<open>[0, 1]\<close>. Under \<^verbatim>\<open>hot\<close> the value \<open>v = 1\<close> is coloured \<open>(1, 1, 1.02, 1)\<close>: the
  blue component is above 1.
\<close>

theorem hot_scheme_leaves_unit_range:
  "generate_color_scheme ''hot'' [1] = [(1, 1, 51 / 50, 1)]
   \<and> \<not> rgba_in_unit (hot_rgba 1)"
  by (simp add: generate_color_scheme_def hot_rgba_def rgba_in_unit_def in_unit_def)

text \<open>
  C4. The anchor colours: \<^verbatim>\<open>green-red\<close> at 0 and 1, \<^verbatim>\<open>cool\<close> at 0.5 and \<^verbatim>\<open>hot\<close> at 0 are as
  claimed; \<^verbatim>\<open>hot\<close> at 1 is \<open>(1, 1, 1.02, 1)\<close> and not the white \<open>(1, 1, 1, 1)\<close> the
  claim names.
\<close>

theorem colour_anchor_values:
  "generate_color_scheme ''green-red'' [0, 1] = [(0, 1, 0, 0.8), (1, 0, 0, 0.8)]
   \<and> generate_color_scheme ''cool'' [0.5] = [(0.5, 0.5, 1, 0.8)]
   \<and> generate_color_scheme ''hot'' [0, 1] = [(0, 0, 0, 0.7), (1, 1, 1.02, 1)]
   \<and> generate_color_scheme ''hot'' [1] \<noteq> [(1, 1, 1, 1)]"
  by (simp add: generate_color_scheme_def hot_rgba_def cool_rgba_def green_red_rgba_def)

text \<open>
  C8, as stated: under \<^verbatim>\<open>viridis\<close> the alpha component is 1 for every \<open>v \<ge> 0.25\<close>.
  It is 0.9 at \<open>v = 0.3\<close>.
\<close>

theorem viridis_alpha_counterexample:
  "(0.25 :: real) \<le> 0.3
   \<and> generate_color_scheme ''viridis'' [0.3] = [(0.28, 0.04, 0.64, 0.9)]
   \<and> alpha (viridis_rgba 0.3) \<noteq> 1"
  by (simp add: generate_color_scheme_def viridis_rgba_def alpha_def)

text \<open>
  C8, amended. Under \<^verbatim>\<open>viridis\<close> the alpha component is constant on each segment: 0.8
  for \<open>v < 0.25\<close>, 0.9 for \<open>0.25 \<le> v < 0.5\<close>, and 1 for \<open>v \<ge> 0.5\<close>.
\<close>

theorem viridis_alpha_piecewise:
  "map alpha (generate_color_scheme ''viridis'' vs)
     = map (\<lambda>v. if v < 0.25 then 0.8 else if v < 0.5 then 0.9 else 1) vs"
  by (simp add: generate_color_scheme_def viridis_rgba_def alpha_def Let_def)

theorem viridis_alpha_piecewise_witness:
  "map alpha (generate_color_scheme ''viridis'' [0, 0.2, 0.25, 0.4, 0.5, 1])
     = [0.8, 0.8, 0.9, 0.9, 1, 1]"
  using viridis_alpha_piecewise[of "[0, 0.2, 0.25, 0.4, 0.5, 1]"]
  by simp

subsection \<open>Zoom and drag\<close>

lemma wheel_zoom_range:
  "- 50 \<le> zoom (on_mouse_wheel s e) \<and> zoom (on_mouse_wheel s e) \<le> - 1"
  by (simp add: on_mouse_wheel_def Let_def)

lemma wheel_zooms_range:
  "\<forall>z\<in>set (wheel_zooms s es). - 50 \<le> z \<and> z \<le> - 1"
proof (induction es arbitrary: s)
  case Nil
  show ?case by simp
next
  case (Cons e es)
  show ?case using wheel_zoom_range[of s e] Cons.IH[of "on_mouse_wheel s e"] by simp
qed

lemma wheel_zooms_length: "length (wheel_zooms s es) = length es"
  by (induction es arbitrary: s) simp_all

text \<open>
  C6. The initial zoom is \<open>-8\<close>. After every wheel event the zoom lies in \<open>[-50, -1]\<close>:
  from any state, and so after each event of every finite run from the initial state.
  A recognised notch changes the zoom by exactly 0.1 (down for button 5 or delta -120,
  up for button 4 or delta 120) before the clamp; any other event only clamps.
\<close>

theorem zoom_stays_clamped:
  "zoom init_viewer = - 8
   \<and> length (wheel_zooms init_viewer es) = length es
   \<and> (\<forall>z\<in>set (wheel_zooms init_viewer es). - 50 \<le> z \<and> z \<le> - 1)
   \<and> - 50 \<le> zoom (on_mouse_wheel s e) \<and> zoom (on_mouse_wheel s e) \<le> - 1
   \<and> (ev_num e = Some 5 \<or> ev_delta e = - 120 \<longrightarrow>
        zoom (on_mouse_wheel s e) = max (min (zoom s - 0.1) (- 1)) (- 50))
   \<and> (\<not> (ev_num e = Some 5 \<or> ev_delta e = - 120) \<and> (ev_num e = Some 4 \<or> ev_delta e = 120) \<longrightarrow>
        zoom (on_mouse_wheel s e) = max (min (zoom s + 0.1) (- 1)) (- 50))
   \<and> (\<not> (ev_num e = Some 5 \<or> ev_delta e = - 120) \<and> \<not> (ev_num e = Some 4 \<or> ev_delta e = 120) \<longrightarrow>
        zoom (on_mouse_wheel s e) = max (min (zoom s) (- 1)) (- 50))"
proof -
  have a: "zoom init_viewer = - 8" by (simp add: init_viewer_def)
  have b: "ev_num e = Some 5 \<or> ev_delta e = - 120 \<longrightarrow>
        zoom (on_mouse_wheel s e) = max (min (zoom s - 0.1) (- 1)) (- 50)"
    by (simp add: on_mouse_wheel_def Let_def)
  have c: "\<not> (ev_num e = Some 5 \<or> ev_delta e = - 120) \<and> (ev_num e = Some 4 \<or> ev_delta e = 120) \<longrightarrow>
        zoom (on_mouse_wheel s e) = max (min (zoom s + 0.1) (- 1)) (- 50)"
    by (simp add: on_mouse_wheel_def Let_def)
  have d: "\<not> (ev_num e = Some 5 \<or> ev_delta e = - 120) \<and> \<not> (ev_num e = Some 4 \<or> ev_delta e = 120) \<longrightarrow>
        zoom (on_mouse_wheel s e) = max (min (zoom s) (- 1)) (- 50)"
    by (simp add: on_mouse_wheel_def Let_def)
  show ?thesis
    using a wheel_zooms_length[of init_viewer es] wheel_zooms_range[of init_viewer es]
      wheel_zoom_range[of s e] b c d
    by blast
qed

theorem zoom_stays_clamped_witness:
  "zoom (on_mouse_wheel init_viewer \<lparr> ev_x = 0, ev_y = 0, ev_num = Some 5, ev_delta = 0 \<rparr>)
     = - 8.1
   \<and> zoom (on_mouse_wheel (init_viewer\<lparr> zoom := - 1 \<rparr>)
             \<lparr> ev_x = 0, ev_y = 0, ev_num = None, ev_delta = 120 \<rparr>) = - 1
   \<and> zoom (on_mouse_wheel (init_viewer\<lparr> zoom := - 50 \<rparr>)
             \<lparr> ev_x = 0, ev_y = 0, ev_num = None, ev_delta = - 120 \<rparr>) = - 50"
  using zoom_stays_clamped[of "[]" init_viewer
          "\<lparr> ev_x = 0, ev_y = 0, ev_num = Some 5, ev_delta = 0 \<rparr>"]
    zoom_stays_clamped[of "[]" "init_viewer\<lparr> zoom := - 1 \<rparr>"
          "\<lparr> ev_x = 0, ev_y = 0, ev_num = None, ev_delta = 120 \<rparr>"]
    zoom_stays_clamped[of "[]" "init_viewer\<lparr> zoom := - 50 \<rparr>"
          "\<lparr> ev_x = 0, ev_y = 0, ev_num = None, ev_delta = - 120 \<rparr>"]
  by (simp add: init_viewer_def)

text \<open>
  C7. While a drag is active a drag event adds half the horizontal pixel delta to the
  cloud's Y rotation and half the vertical delta to its X rotation, the delta being taken
  from the position the preceding press or drag event stored: after a press at \<open>p\<close> and
  drags to \<open>e1\<close> and \<open>e2\<close> the second increment is measured from \<open>e1\<close>, not from \<open>p\<close>. A
  drag event with no drag active (none begun, or after the release) changes nothing.
\<close>

theorem drag_rotates_by_last_delta:
  "(is_dragging s \<longrightarrow>
      rotation_angle_y (on_mouse_drag s e)
        = rotation_angle_y s + real_of_int (ev_x e - last_mouse_pos_x s) * 0.5
    \<and> rotation_angle_x (on_mouse_drag s e)
        = rotation_angle_x s + real_of_int (ev_y e - last_mouse_pos_y s) * 0.5
    \<and> last_mouse_pos_x (on_mouse_drag s e) = ev_x e
    \<and> last_mouse_pos_y (on_mouse_drag s e) = ev_y e
    \<and> is_dragging (on_mouse_drag s e))
   \<and> rotation_angle_y (on_mouse_drag (on_mouse_drag (on_mouse_press s p) e1) e2)
        = rotation_angle_y s + real_of_int (ev_x e1 - ev_x p) * 0.5
                             + real_of_int (ev_x e2 - ev_x e1) * 0.5
   \<and> rotation_angle_x (on_mouse_drag (on_mouse_drag (on_mouse_press s p) e1) e2)
        = rotation_angle_x s + real_of_int (ev_y e1 - ev_y p) * 0.5
                             + real_of_int (ev_y e2 - ev_y e1) * 0.5
   \<and> (\<not> is_dragging s \<longrightarrow> on_mouse_drag s e = s)
   \<and> on_mouse_drag (on_mouse_release s r) e = on_mouse_release s r"
  by (simp add: on_mouse_drag_def on_mouse_press_def on_mouse_release_def Let_def)

theorem drag_rotates_by_last_delta_witness:
  "rotation_angle_y
     (on_mouse_drag (on_mouse_press init_viewer \<lparr> ev_x = 10, ev_y = 10, ev_num = Some 1, ev_delta = 0 \<rparr>)
        \<lparr> ev_x = 14, ev_y = 16, ev_num = None, ev_delta = 0 \<rparr>) = 2
   \<and> rotation_angle_x
     (on_mouse_drag (on_mouse_press init_viewer \<lparr> ev_x = 10, ev_y = 10, ev_num = Some 1, ev_delta = 0 \<rparr>)
        \<lparr> ev_x = 14, ev_y = 16, ev_num = None, ev_delta = 0 \<rparr>) = 3
   \<and> on_mouse_drag init_viewer \<lparr> ev_x = 14, ev_y = 16, ev_num = None, ev_delta = 0 \<rparr> = init_viewer"
  using drag_rotates_by_last_delta[of
          "on_mouse_press init_viewer \<lparr> ev_x = 10, ev_y = 10, ev_num = Some 1, ev_delta = 0 \<rparr>"
          "\<lparr> ev_x = 14, ev_y = 16, ev_num = None, ev_delta = 0 \<rparr>"]
    drag_rotates_by_last_delta[of init_viewer
          "\<lparr> ev_x = 14, ev_y = 16, ev_num = None, ev_delta = 0 \<rparr>"]
  by (simp add: on_mouse_press_def init_viewer_def)

subsection \<open>Frame composition\<close>

lemma redraw_frame:
  "frame (redraw s w) =
     DrawSphere (mat_mul (mat_mul (mat_mul (shared_prefix s)
                    (rotation (sphere_rotation_x s) 1 0 0))
                    (rotation (sphere_rotation_y s) 0 1 0))
                    (rotation (sphere_rotation_z s) 0 0 1)) 2.5
     # (if points_vbo s \<noteq> None \<and> point_count s > 0
        then [DrawPoints (shared_prefix s) (points_vbo s) (colors_vbo s) (point_count s)]
        else [])"
  by (simp add: redraw_def Let_def glLoadIdentity_def glClear_def glTranslatef_def glRotatef_def
      glPushMatrix_def glPopMatrix_def draw_textured_sphere_def glDrawArrays_points_def
      shared_prefix_def)

lemma redraw_modelview: "modelview (redraw s w) = shared_prefix s"
  by (simp add: redraw_def Let_def glLoadIdentity_def glClear_def glTranslatef_def glRotatef_def
      glPushMatrix_def glPopMatrix_def draw_textured_sphere_def glDrawArrays_points_def
      shared_prefix_def)

lemma shared_prefix_sphere_update:
  "shared_prefix (s\<lparr> sphere_rotation_x := a, sphere_rotation_y := b, sphere_rotation_z := c \<rparr>)
     = shared_prefix s"
  by (simp add: shared_prefix_def)

lemma rotation_zero:
  "rotation 0 1 0 0 = identity4" "rotation 0 0 1 0 = identity4" "rotation 0 0 0 1 = identity4"
  by (simp_all add: rotation_def radians_def identity4_def)

lemma rotation_x_180:
  "rotation 180 1 0 0 = ((1, 0, 0, 0), (0, - 1, 0, 0), (0, 0, - 1, 0), (0, 0, 0, 1))"
  by (simp add: rotation_def radians_def)

lemma rotation_x_90:
  "rotation 90 1 0 0 = ((1, 0, 0, 0), (0, 0, - 1, 0), (0, 1, 0, 0), (0, 0, 0, 1))"
  by (simp add: rotation_def radians_def)

lemma cos_270: "cos (3 * pi / 2) = 0"
  using cos_3over2_pi by simp

lemma sin_270: "sin (3 * pi / 2) = - 1"
  using sin_3over2_pi by simp

lemma rotation_z_270:
  "rotation 270 0 0 1 = ((0, 1, 0, 0), (- 1, 0, 0, 0), (0, 0, 1, 0), (0, 0, 0, 1))"
  by (simp add: rotation_def radians_def cos_270 sin_270)

lemma sphere_transform_initial:
  "sphere_transforms (frame (redraw init_viewer init_world))
     = [((0, 1, 0, 0), (0, 0, - 1, 0), (- 1, 0, 0, - 8), (0, 0, 0, 1))]"
  by (simp add: redraw_frame shared_prefix_def init_viewer_def rotation_zero rotation_x_90
      rotation_z_270 identity4_def translation_def)

lemma dragged_viewer:
  "on_mouse_drag (on_mouse_press init_viewer \<lparr> ev_x = 0, ev_y = 0, ev_num = Some 1, ev_delta = 0 \<rparr>)
                 \<lparr> ev_x = 0, ev_y = 360, ev_num = None, ev_delta = 0 \<rparr>
     = init_viewer\<lparr> rotation_angle_x := 180, last_mouse_pos_y := 360, is_dragging := True \<rparr>"
  by (simp add: on_mouse_drag_def on_mouse_press_def init_viewer_def Let_def)

lemma sphere_transform_dragged:
  "sphere_transforms (frame (redraw
      (init_viewer\<lparr> rotation_angle_x := 180, last_mouse_pos_y := 360, is_dragging := True \<rparr>)
      init_world))
     = [((0, 1, 0, 0), (0, 0, 1, 0), (1, 0, 0, - 8), (0, 0, 0, 1))]"
  by (simp add: redraw_frame shared_prefix_def init_viewer_def rotation_zero rotation_x_90
      rotation_x_180 rotation_z_270 identity4_def translation_def)

text \<open>
  C9, as stated: the point-cloud rotation does not affect the transform under which the
  sphere is drawn. From the initial state, a press and a drag 360 pixels down turn the
  cloud by 180 degrees about X, and the sphere is then drawn under a different matrix.
\<close>

theorem cloud_rotation_reaches_sphere:
  "sphere_transforms (frame (redraw init_viewer init_world))
     = [((0, 1, 0, 0), (0, 0, - 1, 0), (- 1, 0, 0, - 8), (0, 0, 0, 1))]
   \<and> sphere_transforms (frame (redraw
        (on_mouse_drag
           (on_mouse_press init_viewer \<lparr> ev_x = 0, ev_y = 0, ev_num = Some 1, ev_delta = 0 \<rparr>)
           \<lparr> ev_x = 0, ev_y = 360, ev_num = None, ev_delta = 0 \<rparr>)
        init_world))
     = [((0, 1, 0, 0), (0, 0, 1, 0), (1, 0, 0, - 8), (0, 0, 0, 1))]
   \<and> sphere_transforms (frame (redraw
        (on_mouse_drag
           (on_mouse_press init_viewer \<lparr> ev_x = 0, ev_y = 0, ev_num = Some 1, ev_delta = 0 \<rparr>)
           \<lparr> ev_x = 0, ev_y = 360, ev_num = None, ev_delta = 0 \<rparr>)
        init_world))
     \<noteq> sphere_transforms (frame (redraw init_viewer init_world))"
  unfolding dragged_viewer sphere_transform_initial sphere_transform_dragged
  by simp

text \<open>
  C9, amended. In a frame the sphere is drawn under the shared prefix (zoom translation,
  then cloud rotation about X, then about Y) followed by its own rotation about X, Y and
  Z; the point cloud, when there are points, is drawn under the shared prefix alone, which
  is also the matrix the frame leaves current. The sphere's own rotation does not affect
  the transform of the point cloud. The cloud rotation is part of the prefix, so it is
  part of the sphere's transform as well.
\<close>

theorem redraw_transforms:
  "sphere_transforms (frame (redraw s w))
     = [mat_mul (mat_mul (mat_mul (shared_prefix s)
                   (rotation (sphere_rotation_x s) 1 0 0))
                   (rotation (sphere_rotation_y s) 0 1 0))
                   (rotation (sphere_rotation_z s) 0 0 1)]
   \<and> points_transforms (frame (redraw s w))
     = (if points_vbo s \<noteq> None \<and> point_count s > 0 then [shared_prefix s] else [])
   \<and> modelview (redraw s w) = shared_prefix s
   \<and> matrix_stack (redraw s w) = matrix_stack w
   \<and> points_transforms (frame (redraw
        (s\<lparr> sphere_rotation_x := a, sphere_rotation_y := b, sphere_rotation_z := c \<rparr>) w))
     = points_transforms (frame (redraw s w))"
proof -
  have stack: "matrix_stack (redraw s w) = matrix_stack w"
    by (simp add: redraw_def Let_def glLoadIdentity_def glClear_def glTranslatef_def
        glRotatef_def glPushMatrix_def glPopMatrix_def draw_textured_sphere_def
        glDrawArrays_points_def)
  show ?thesis
    by (simp add: redraw_frame redraw_modelview stack shared_prefix_sphere_update)
qed

theorem redraw_transforms_witness:
  "points_transforms (frame (redraw
      (init_viewer\<lparr> points_vbo := Some [(0, 5 / 2, 0)], point_count := 1 \<rparr>) init_world))
     = [((1, 0, 0, 0), (0, 1, 0, 0), (0, 0, 1, - 8), (0, 0, 0, 1))]
   \<and> points_transforms (frame (redraw
      (init_viewer\<lparr> points_vbo := Some [(0, 5 / 2, 0)], point_count := 1,
                    sphere_rotation_x := 10, sphere_rotation_y := 20, sphere_rotation_z := 30 \<rparr>)
      init_world))
     = [((1, 0, 0, 0), (0, 1, 0, 0), (0, 0, 1, - 8), (0, 0, 0, 1))]"
proof -
  let ?s = "init_viewer\<lparr> points_vbo := Some [(0, 5 / 2, 0)], point_count := 1 \<rparr>"
  have pre: "shared_prefix ?s = ((1, 0, 0, 0), (0, 1, 0, 0), (0, 0, 1, - 8), (0, 0, 0, 1))"
    by (simp add: shared_prefix_def init_viewer_def rotation_zero identity4_def translation_def)
  have pts: "points_vbo ?s \<noteq> None \<and> point_count ?s > 0"
    by simp
  note t = redraw_transforms[where s = ?s and w = init_world and a = 10 and b = 20 and c = 30]
  note a = t[THEN conjunct2, THEN conjunct1]
  note b = t[THEN conjunct2, THEN conjunct2, THEN conjunct2, THEN conjunct2]
  from a pts have a': "points_transforms (frame (redraw ?s init_world)) = [shared_prefix ?s]"
    by simp
  from a' pre
  have d: "points_transforms (frame (redraw ?s init_world))
             = [((1, 0, 0, 0), (0, 1, 0, 0), (0, 0, 1, - 8), (0, 0, 0, 1))]"
    by (simp only:)
  from b d
  have c: "points_transforms (frame (redraw
               (?s\<lparr> sphere_rotation_x := 10, sphere_rotation_y := 20, sphere_rotation_z := 30 \<rparr>)
               init_world))
             = [((1, 0, 0, 0), (0, 1, 0, 0), (0, 0, 1, - 8), (0, 0, 0, 1))]"
    by (simp only:)
  from d c show ?thesis by (rule conjI)
qed

subsection \<open>Heatmap settings\<close>

lemma viewer_after_None_scheme:
  "color_scheme (viewer_after (update_heatmap_settings s None lg w)) = color_scheme s"
  by (cases lg; cases "populations s")
     (auto simp: update_heatmap_settings_def viewer_after_def Let_def split: sum.splits prod.splits)

lemma viewer_after_None_log:
  "use_logarithmic (viewer_after (update_heatmap_settings s sch None w)) = use_logarithmic s"
  by (cases sch; cases "populations s")
     (auto simp: update_heatmap_settings_def viewer_after_def Let_def split: sum.splits prod.splits)

lemma update_no_points:
  "populations s = None \<Longrightarrow>
   update_heatmap_settings s sch lg w =
     Inr (s\<lparr> color_scheme := (case sch of None \<Rightarrow> color_scheme s | Some c \<Rightarrow> c),
            use_logarithmic := (case lg of None \<Rightarrow> use_logarithmic s | Some l \<Rightarrow> l) \<rparr>, w)"
  by (cases sch; cases lg) (simp_all add: update_heatmap_settings_def Let_def)

text \<open>
  C10. \<^verbatim>\<open>update_heatmap_settings\<close> with no scheme leaves \<^verbatim>\<open>color_scheme\<close> as it was and
  with no logarithmic flag leaves \<^verbatim>\<open>use_logarithmic\<close> as it was, whether the call returns
  or raises. When no point data was loaded the call returns the object with only these
  two fields assigned (each to its argument when one is given) and leaves the context
  untouched: nothing is printed by a colour computation and nothing is drawn.
\<close>

theorem heatmap_settings_absent_arguments:
  "color_scheme (viewer_after (update_heatmap_settings s None lg w)) = color_scheme s
   \<and> use_logarithmic (viewer_after (update_heatmap_settings s sch None w)) = use_logarithmic s
   \<and> (populations s = None \<longrightarrow>
        update_heatmap_settings s sch lg w =
          Inr (s\<lparr> color_scheme := (case sch of None \<Rightarrow> color_scheme s | Some c \<Rightarrow> c),
                 use_logarithmic := (case lg of None \<Rightarrow> use_logarithmic s | Some l \<Rightarrow> l) \<rparr>,
               w))"
  using viewer_after_None_scheme[of s lg w] viewer_after_None_log[of s sch w]
    update_no_points[of s sch lg w]
  by blast

theorem heatmap_settings_absent_arguments_witness:
  "update_heatmap_settings init_viewer (Some ''hot'') None init_world
     = Inr (init_viewer\<lparr> color_scheme := ''hot'' \<rparr>, init_world)
   \<and> update_heatmap_settings init_viewer None None init_world = Inr (init_viewer, init_world)"
  using heatmap_settings_absent_arguments[of init_viewer None init_world "Some ''hot''"]
    heatmap_settings_absent_arguments[of init_viewer None init_world None]
  by (simp add: init_viewer_def)

end
